theory Spec2Isabelle
  imports Complex_Main "HOL-Library.Monad_Syntax"
begin

section \<open>JavaScript strings and numbers used by the colour model\<close>

text \<open>
  Strings are lists of \<^typ>\<open>char\<close>: code units below 256. The white space of
  \<^verbatim>\<open>String.prototype.trim\<close>, of \<^verbatim>\<open>parseInt\<close> and of the regular
  expression class \<^verbatim>\<open>\s\<close> is, in that range, TAB, LF, VT, FF, CR, SPACE and NBSP.
\<close>

definition isWhiteSpace :: "char \<Rightarrow> bool" where
  "isWhiteSpace c = ((of_char c :: nat) \<in> {9, 10, 11, 12, 13, 32, 160})"

definition isDigit :: "char \<Rightarrow> bool" where
  "isDigit c = (48 \<le> (of_char c :: nat) \<and> (of_char c :: nat) \<le> 57)"

text \<open>The value of a digit in radix 16, \<open>None\<close> for any other character.\<close>

definition hexDigitValue :: "char \<Rightarrow> nat option" where
  "hexDigitValue c =
     (let n = (of_char c :: nat) in
      if 48 \<le> n \<and> n \<le> 57 then Some (n - 48)
      else if 97 \<le> n \<and> n \<le> 102 then Some (n - 87)
      else if 65 \<le> n \<and> n \<le> 70 then Some (n - 55)
      else None)"

definition isHexDigit :: "char \<Rightarrow> bool" where
  "isHexDigit c = (hexDigitValue c \<noteq> None)"

text \<open>\<^verbatim>\<open>String.prototype.toLowerCase\<close> on code units below 256.\<close>

definition toLowerCase :: "char \<Rightarrow> char" where
  "toLowerCase c =
     (let n = (of_char c :: nat) in
      if (65 \<le> n \<and> n \<le> 90) \<or> (192 \<le> n \<and> n \<le> 214) \<or> (216 \<le> n \<and> n \<le> 222)
      then char_of (n + 32) else c)"

text \<open>
  A JavaScript number as the colour code meets it: an integer, \<^verbatim>\<open>NaN\<close> (what
  \<^verbatim>\<open>parseInt\<close> returns when it finds no digit) or \<^verbatim>\<open>Infinity\<close> (what
  \<^verbatim>\<open>Number\<close> returns for a decimal literal beyond the double range).
\<close>

datatype number = Num int | NaN | Infinity

text \<open>
  \<^verbatim>\<open>parseInt(s, 16)\<close>: skip leading white space, read an optional sign, skip an
  optional \<^verbatim>\<open>0x\<close> or \<^verbatim>\<open>0X\<close>, then read the longest prefix of hex digits. No digit
  gives \<^verbatim>\<open>NaN\<close>; whatever follows the digits is ignored.
\<close>

fun hexValue :: "nat \<Rightarrow> string \<Rightarrow> nat" where
  "hexValue acc [] = acc"
| "hexValue acc (c # cs) =
     (case hexDigitValue c of None \<Rightarrow> acc | Some d \<Rightarrow> hexValue (16 * acc + d) cs)"

definition stripHexPrefix :: "string \<Rightarrow> string" where
  "stripHexPrefix s =
     (case s of
        a # b # rest \<Rightarrow> if a = CHR ''0'' \<and> (b = CHR ''x'' \<or> b = CHR ''X'') then rest else s
      | _ \<Rightarrow> s)"

definition parseInt16 :: "string \<Rightarrow> number" where
  "parseInt16 str =
     (let s = dropWhile isWhiteSpace str;
          negative = (s \<noteq> [] \<and> hd s = CHR ''-'');
          s1 = (if s \<noteq> [] \<and> (hd s = CHR ''+'' \<or> hd s = CHR ''-'') then tl s else s);
          s2 = stripHexPrefix s1;
          z = takeWhile isHexDigit s2
      in if z = [] then NaN
         else if negative then Num (- int (hexValue 0 z)) else Num (int (hexValue 0 z)))"

text \<open>\<^verbatim>\<open>Number.prototype.toString(16)\<close> and \<^verbatim>\<open>toString()\<close>.\<close>

definition digitChar :: "nat \<Rightarrow> char" where
  "digitChar d = (if d < 10 then char_of (48 + d) else char_of (87 + d))"

fun natToString :: "nat \<Rightarrow> nat \<Rightarrow> string" where
  "natToString radix n =
     (if radix < 2 \<or> n < radix then [digitChar n]
      else natToString radix (n div radix) @ [digitChar (n mod radix)])"

definition toStringRadix :: "nat \<Rightarrow> number \<Rightarrow> string" where
  "toStringRadix radix x =
     (case x of
        NaN \<Rightarrow> ''NaN''
      | Infinity \<Rightarrow> ''Infinity''
      | Num n \<Rightarrow> if n < 0 then CHR ''-'' # natToString radix (nat (- n))
                 else natToString radix (nat n))"

text \<open>\<^verbatim>\<open>String.prototype.padStart(n, "0")\<close>.\<close>

definition padStart :: "nat \<Rightarrow> string \<Rightarrow> string" where
  "padStart n s = replicate (n - length s) CHR ''0'' @ s"

text \<open>\<^verbatim>\<open>String.prototype.replace("#", "")\<close>: the first \<^verbatim>\<open>#\<close> is removed, wherever it is.\<close>

fun removeFirstHash :: "string \<Rightarrow> string" where
  "removeFirstHash [] = []"
| "removeFirstHash (c # cs) = (if c = CHR ''#'' then cs else c # removeFirstHash cs)"

section \<open>Colour model\<close>

record RGB =
  r :: int
  g :: int
  b :: int

text \<open>
  \<^verbatim>\<open>parseHexToRgb\<close>: \<open>None\<close> is the source's \<^verbatim>\<open>null\<close>. The test
  \<^verbatim>\<open>Number.isNaN\<close> of the three channels is the case distinction: a channel that is
  not \<^verbatim>\<open>NaN\<close> is an integer.
\<close>

definition parseHexToRgb :: "string \<Rightarrow> RGB option" where
  "parseHexToRgb hex =
     (let clean = removeFirstHash hex in
      if length clean \<noteq> 6 then None
      else
        let rr = parseInt16 (take 2 clean);
            gg = parseInt16 (take 2 (drop 2 clean));
            bb = parseInt16 (take 2 (drop 4 clean))
        in case (rr, gg, bb) of
             (Num x, Num y, Num z) \<Rightarrow> Some \<lparr>r = x, g = y, b = z\<rparr>
           | _ \<Rightarrow> None)"

definition rgbToHex :: "number \<Rightarrow> number \<Rightarrow> number \<Rightarrow> string" where
  "rgbToHex rr gg bb =
     padStart 2 (toStringRadix 16 rr) @ padStart 2 (toStringRadix 16 gg) @
     padStart 2 (toStringRadix 16 bb)"


text \<open>
  \<^verbatim>\<open>Number(digits)\<close> for a string of decimal digits (a capture of \<^verbatim>\<open>\d+\<close>): the
  integer it denotes, rounded to the nearest double (ties to even) from \<open>2^53\<close> on, and
  \<^verbatim>\<open>Infinity\<close> beyond the double range.
\<close>

fun decimalValue :: "nat \<Rightarrow> string \<Rightarrow> nat" where
  "decimalValue acc [] = acc"
| "decimalValue acc (c # cs) = decimalValue (10 * acc + ((of_char c :: nat) - 48)) cs"

fun bitLength :: "nat \<Rightarrow> nat" where
  "bitLength n = (if n = 0 then 0 else Suc (bitLength (n div 2)))"

definition roundToDouble :: "nat \<Rightarrow> number" where
  "roundToDouble n =
     (if n < 2 ^ 53 then Num (int n)
      else
        let e = bitLength n - 53;
            q = n div 2 ^ e;
            rest = n mod 2 ^ e;
            m = (if 2 * rest > 2 ^ e \<or> (2 * rest = 2 ^ e \<and> odd q) then q + 1 else q);
            v = m * 2 ^ e
        in if v \<ge> 2 ^ 1024 then Infinity else Num (int v))"

definition Number_ofDigits :: "string \<Rightarrow> number" where
  "Number_ofDigits ds = roundToDouble (decimalValue 0 ds)"

text \<open>
  The regular expression \<^verbatim>\<open>/rgb\s*\((\d+)\s*,\s*(\d+)\s*,\s*(\d+)\s*\)/i\<close> of
  \<^verbatim>\<open>rgbStringToHex\<close>. It is not anchored: \<^verbatim>\<open>match\<close> returns the leftmost
  match. Each starred or plussed class is followed by a character outside the class, so
  the greedy match is the only one and backtracking finds nothing else.
\<close>

definition expectChar :: "char \<Rightarrow> string \<Rightarrow> string option" where
  "expectChar c s = (case s of [] \<Rightarrow> None | x # xs \<Rightarrow> if x = c then Some xs else None)"

definition matchDigits :: "string \<Rightarrow> (string \<times> string) option" where
  "matchDigits s =
     (let ds = takeWhile isDigit s in if ds = [] then None else Some (ds, dropWhile isDigit s))"

definition matchRgbAt :: "string \<Rightarrow> (string \<times> string \<times> string) option" where
  "matchRgbAt s =
     (case s of
        c1 # c2 # c3 # rest \<Rightarrow>
          if (c1 = CHR ''r'' \<or> c1 = CHR ''R'') \<and> (c2 = CHR ''g'' \<or> c2 = CHR ''G'') \<and>
             (c3 = CHR ''b'' \<or> c3 = CHR ''B'')
          then do {
            s1 \<leftarrow> expectChar CHR ''('' (dropWhile isWhiteSpace rest);
            (d1, s2) \<leftarrow> matchDigits s1;
            s3 \<leftarrow> expectChar CHR '','' (dropWhile isWhiteSpace s2);
            (d2, s4) \<leftarrow> matchDigits (dropWhile isWhiteSpace s3);
            s5 \<leftarrow> expectChar CHR '','' (dropWhile isWhiteSpace s4);
            (d3, s6) \<leftarrow> matchDigits (dropWhile isWhiteSpace s5);
            _ \<leftarrow> expectChar CHR '')'' (dropWhile isWhiteSpace s6);
            Some (d1, d2, d3)
          }
          else None
      | _ \<Rightarrow> None)"

fun matchRgb :: "string \<Rightarrow> (string \<times> string \<times> string) option" where
  "matchRgb [] = None"
| "matchRgb (c # cs) =
     (case matchRgbAt (c # cs) of Some m \<Rightarrow> Some m | None \<Rightarrow> matchRgb cs)"

definition rgbStringToHex :: "string \<Rightarrow> string" where
  "rgbStringToHex rgbStr =
     (case matchRgb rgbStr of
        None \<Rightarrow> ''000000''
      | Some (d1, d2, d3) \<Rightarrow>
          rgbToHex (Number_ofDigits d1) (Number_ofDigits d2) (Number_ofDigits d3))"

definition startsWith :: "string \<Rightarrow> string \<Rightarrow> bool" where
  "startsWith s p = (take (length p) s = p)"

subsection \<open>Luminance and contrast\<close>

text \<open>
  The arithmetic of the source is on doubles; it is modelled on the reals, with
  \<^verbatim>\<open>Math.pow\<close> (only ever called on a positive base) as \<open>powr\<close>.
\<close>

definition AAA_CONTRAST_RATIO :: real where
  "AAA_CONTRAST_RATIO = 7"

definition srgbChannelToLinear :: "int \<Rightarrow> real" where
  "srgbChannelToLinear channel =
     (let c = real_of_int channel / 255 in
      if c \<le> 0.03928 then c / 12.92 else ((c + 0.055) / 1.055) powr 2.4)"

definition getRelativeLuminance :: "int \<Rightarrow> int \<Rightarrow> int \<Rightarrow> real" where
  "getRelativeLuminance rr gg bb =
     0.2126 * srgbChannelToLinear rr + 0.7152 * srgbChannelToLinear gg +
     0.0722 * srgbChannelToLinear bb"

definition getContrastRatio :: "real \<Rightarrow> real \<Rightarrow> real" where
  "getContrastRatio l1 l2 =
     (let lighter = max l1 l2; darker = min l1 l2 in (lighter + 0.05) / (darker + 0.05))"

definition isAaaContrastWithWhite :: "int \<Rightarrow> int \<Rightarrow> int \<Rightarrow> bool" where
  "isAaaContrastWithWhite rr gg bb =
     (let bgL = getRelativeLuminance rr gg bb;
          whiteL = 1;
          ratio = getContrastRatio whiteL bgL
      in ratio \<ge> AAA_CONTRAST_RATIO)"

section \<open>Constrained random colour generator\<close>

text \<open>
  \<^verbatim>\<open>Math.random\<close> is a source \<open>f\<close> of samples read at a position that each call
  advances: the \<open>k\<close>-th call of a run returns \<open>f k\<close>. \<open>getRandomInt f pos\<close> is the
  call made at position \<open>pos\<close>; its caller moves on to \<open>pos + 1\<close>.
\<close>

type_synonym random_source = "nat \<Rightarrow> real"

definition getRandomInt :: "random_source \<Rightarrow> nat \<Rightarrow> int \<Rightarrow> int \<Rightarrow> int" where
  "getRandomInt f pos lo hi = \<lfloor>f pos * real_of_int (hi - lo + 1)\<rfloor> + lo"

text \<open>The rejection loop has no bound: \<open>None\<close> is a run that never returns.\<close>

partial_function (option) getRandomAaaRgbColor :: "random_source \<Rightarrow> nat \<Rightarrow> (RGB \<times> nat) option"
where
  "getRandomAaaRgbColor f pos =
     (let rr = getRandomInt f pos 0 120;
          gg = getRandomInt f (pos + 1) 0 120;
          bb = getRandomInt f (pos + 2) 0 120
      in if isAaaContrastWithWhite rr gg bb then Some (\<lparr>r = rr, g = gg, b = bb\<rparr>, pos + 3)
         else getRandomAaaRgbColor f (pos + 3))"

datatype ColorCodeType = HEX | RGB

text \<open>The string pushed by one round of the loop of \<^verbatim>\<open>generateRandomPaletteValues\<close>.\<close>

definition colorString :: "ColorCodeType \<Rightarrow> RGB \<Rightarrow> string" where
  "colorString type c =
     (if type = HEX then rgbToHex (Num (r c)) (Num (g c)) (Num (b c))
      else ''rgb('' @ toStringRadix 10 (Num (r c)) @ '', '' @ toStringRadix 10 (Num (g c)) @
           '', '' @ toStringRadix 10 (Num (b c)) @ '')'')"

fun generateLoop ::
  "random_source \<Rightarrow> ColorCodeType \<Rightarrow> nat \<Rightarrow> string list \<Rightarrow> nat \<Rightarrow> (string list \<times> nat) option"
where
  "generateLoop f type 0 result pos = Some (result, pos)"
| "generateLoop f type (Suc k) result pos =
     (case getRandomAaaRgbColor f pos of
        None \<Rightarrow> None
      | Some (c, pos') \<Rightarrow> generateLoop f type k (result @ [colorString type c]) pos')"

definition generateRandomPaletteValues ::
  "random_source \<Rightarrow> ColorCodeType \<Rightarrow> nat \<Rightarrow> nat \<Rightarrow> (string list \<times> nat) option"
where
  "generateRandomPaletteValues f type len pos = generateLoop f type len [] pos"

section \<open>Palette engine\<close>

text \<open>
  A slot of the palette. The source's field \<^verbatim>\<open>value\<close> is \<open>value'\<close> here, the plain
  name being taken.
\<close>

record PaletteColor =
  value' :: string
  isPinned :: bool

text \<open>
  The reactive state of the generator view (\<^verbatim>\<open>format\<close>, \<^verbatim>\<open>paletteSize\<close>,
  \<^verbatim>\<open>colors\<close>, \<^verbatim>\<open>pinedColors\<close>, \<^verbatim>\<open>isDarkPreview\<close>), the local storage it reads and
  writes (keys to raw strings), and the position reached in the random source. The
  palette size is a natural number: the select offers 3, 5 and 7.
\<close>

record GeneratorState =
  format :: ColorCodeType
  paletteSize :: nat
  colors :: "PaletteColor list"
  pinedColors :: "PaletteColor list"
  isDarkPreview :: bool
  localStorage :: "string \<rightharpoonup> string"
  randomPos :: nat

definition unpinned :: "string \<Rightarrow> PaletteColor" where
  "unpinned v = \<lparr>value' = v, isPinned = False\<rparr>"

text \<open>
  \<^verbatim>\<open>ensurePaletteSize\<close>. The source filters \<^verbatim>\<open>undefined\<close> out of the new values; a
  list of strings holds none.
\<close>

definition ensurePaletteSize :: "random_source \<Rightarrow> GeneratorState \<Rightarrow> GeneratorState option" where
  "ensurePaletteSize f s =
     (if length (colors s) < paletteSize s then
        (let missing = paletteSize s - length (colors s) in
         case generateRandomPaletteValues f (format s) missing (randomPos s) of
           None \<Rightarrow> None
         | Some (newValues, pos') \<Rightarrow>
             Some (s\<lparr>colors := colors s @ map unpinned newValues, randomPos := pos'\<rparr>))
      else if length (colors s) > paletteSize s then
        Some (s\<lparr>colors := take (paletteSize s) (colors s)\<rparr>)
      else Some s)"

text \<open>
  The select of the palette size: \<^verbatim>\<open>v-model.number\<close> stores the chosen size, then the
  \<^verbatim>\<open>change\<close> handler \<^verbatim>\<open>handleChangeSize\<close> runs.
\<close>

definition handleChangeSize :: "random_source \<Rightarrow> GeneratorState \<Rightarrow> GeneratorState option" where
  "handleChangeSize f s = ensurePaletteSize f s"

definition resize :: "random_source \<Rightarrow> nat \<Rightarrow> GeneratorState \<Rightarrow> GeneratorState option" where
  "resize f newSize s = handleChangeSize f (s\<lparr>paletteSize := newSize\<rparr>)"

text \<open>
  The second loop of \<^verbatim>\<open>generateNewPalette\<close>: one new value is pushed for each unpinned
  slot met while new values remain; \<open>i\<close> counts the values used.
\<close>

fun pushNewValues ::
  "PaletteColor list \<Rightarrow> string list \<Rightarrow> nat \<Rightarrow> PaletteColor list \<Rightarrow> PaletteColor list"
where
  "pushNewValues [] newValues i result = result"
| "pushNewValues (c # cs) newValues i result =
     (if \<not> isPinned c \<and> i < length newValues
      then pushNewValues cs newValues (Suc i) (result @ [unpinned (newValues ! i)])
      else pushNewValues cs newValues i result)"

text \<open>
  The closing \<^verbatim>\<open>while\<close> loop: one value is generated and pushed until the result
  reaches the palette size. A batch without a first value pushes nothing and loops on.
\<close>

partial_function (option) fillToSize ::
  "random_source \<Rightarrow> ColorCodeType \<Rightarrow> nat \<Rightarrow> PaletteColor list \<Rightarrow> nat \<Rightarrow>
   (PaletteColor list \<times> nat) option"
where
  "fillToSize f type size' result pos =
     (if length result < size' then
        (case generateRandomPaletteValues f type 1 pos of
           None \<Rightarrow> None
         | Some (extraValues, pos') \<Rightarrow>
             (case extraValues of
                [] \<Rightarrow> fillToSize f type size' result pos'
              | v # _ \<Rightarrow> fillToSize f type size' (result @ [unpinned v]) pos'))
      else Some (result, pos))"

definition generateNewPalette :: "random_source \<Rightarrow> GeneratorState \<Rightarrow> GeneratorState option" where
  "generateNewPalette f s =
     (let pinned = filter isPinned (colors s);
          pinnedCount = length pinned;
          needed = nat (max 0 (int (paletteSize s) - int pinnedCount))
      in case generateRandomPaletteValues f (format s) needed (randomPos s) of
           None \<Rightarrow> None
         | Some (newValues, pos1) \<Rightarrow>
             (let result1 = filter isPinned (colors s);
                  result2 = pushNewValues (colors s) newValues 0 result1
              in case fillToSize f (format s) (paletteSize s) result2 pos1 of
                   None \<Rightarrow> None
                 | Some (result3, pos2) \<Rightarrow>
                     Some (s\<lparr>colors := take (paletteSize s) result3, randomPos := pos2\<rparr>)))"

text \<open>
  \<^verbatim>\<open>handleChangeFormat\<close> runs after \<^verbatim>\<open>v-model\<close> has stored the new format; its body is
  that of \<^verbatim>\<open>generateNewPalette\<close>, statement for statement.
\<close>

definition handleChangeFormat :: "random_source \<Rightarrow> GeneratorState \<Rightarrow> GeneratorState option" where
  "handleChangeFormat f s =
     (let pinned = filter isPinned (colors s);
          pinnedCount = length pinned;
          needed = nat (max 0 (int (paletteSize s) - int pinnedCount))
      in case generateRandomPaletteValues f (format s) needed (randomPos s) of
           None \<Rightarrow> None
         | Some (newValues, pos1) \<Rightarrow>
             (let result1 = filter isPinned (colors s);
                  result2 = pushNewValues (colors s) newValues 0 result1
              in case fillToSize f (format s) (paletteSize s) result2 pos1 of
                   None \<Rightarrow> None
                 | Some (result3, pos2) \<Rightarrow>
                     Some (s\<lparr>colors := take (paletteSize s) result3, randomPos := pos2\<rparr>)))"

definition changeFormat ::
  "random_source \<Rightarrow> ColorCodeType \<Rightarrow> GeneratorState \<Rightarrow> GeneratorState option"
where
  "changeFormat f newFormat s = handleChangeFormat f (s\<lparr>format := newFormat\<rparr>)"

text \<open>\<^verbatim>\<open>handleTogglePin\<close>: an index outside the palette reads \<^verbatim>\<open>undefined\<close> and returns.\<close>

definition handleTogglePin :: "nat \<Rightarrow> GeneratorState \<Rightarrow> GeneratorState" where
  "handleTogglePin index s =
     (if index < length (colors s) then
        (let item = colors s ! index;
             colors' = (colors s)[index := item\<lparr>isPinned := \<not> isPinned item\<rparr>]
         in s\<lparr>colors := colors', pinedColors := filter isPinned colors'\<rparr>)
      else s)"

section \<open>Accent colour\<close>

text \<open>
  The expression \<^verbatim>\<open>c.value.startsWith("rgb") ? rgbStringToHex(c.value) : c.value\<close>,
  which the analyzer writes out at each use.
\<close>

definition hexOf :: "PaletteColor \<Rightarrow> string" where
  "hexOf c = (if startsWith (value' c) ''rgb'' then rgbStringToHex (value' c) else value' c)"

text \<open>One round of the scan of \<^verbatim>\<open>accentColor\<close>; \<open>best\<close> is the pair of value and ratio.\<close>

definition accentStep :: "real \<Rightarrow> (string \<times> real) option \<Rightarrow> PaletteColor \<Rightarrow> (string \<times> real) option"
where
  "accentStep midL best c =
     (let h = hexOf c in
      case parseHexToRgb h of
        None \<Rightarrow> best
      | Some rgb \<Rightarrow>
          (let l = getRelativeLuminance (r rgb) (g rgb) (b rgb);
               ratio = getContrastRatio midL l
           in case best of
                None \<Rightarrow> Some (CHR ''#'' # h, ratio)
              | Some (bestValue, bestRatio) \<Rightarrow>
                  if ratio > bestRatio then Some (CHR ''#'' # h, ratio) else best))"

definition accentColor :: "PaletteColor list \<Rightarrow> (string \<times> real) option" where
  "accentColor cs =
     (if length cs = 0 then None
      else
        let midIndex = length cs div 2;
            mid = cs ! midIndex;
            midHex = hexOf mid
        in case parseHexToRgb midHex of
             None \<Rightarrow> None
           | Some midRgb \<Rightarrow>
               (let midL = getRelativeLuminance (r midRgb) (g midRgb) (b midRgb)
                in foldl (accentStep midL) None cs))"

section \<open>Loading the generator\<close>

definition STORAGE_KEY :: string where
  "STORAGE_KEY = ''color-generator-palette-v1''"

definition ACTIVE_PALETTE_KEY :: string where
  "ACTIVE_PALETTE_KEY = ''color-generator-active-from-library''"

text \<open>
  \<^verbatim>\<open>JSON.parse(raw) as T\<close> is a library call: the model takes it as a parameter, a
  function from the raw text to one of three outcomes. It throws \<^verbatim>\<open>SyntaxError\<close>; it
  returns \<^verbatim>\<open>null\<close>, and the first property read of the caller throws
  \<^verbatim>\<open>TypeError\<close>; or it returns a value, read at the type \<open>T\<close> of the cast.
\<close>

datatype 'a parsed = SyntaxError | Null | Parsed 'a

text \<open>
  For the handoff, \<open>T\<close> is \<^verbatim>\<open>{ colors?: string[] }\<close>: \<open>None\<close> when
  \<^verbatim>\<open>Array.isArray(parsed.colors)\<close> is false (no such field, or not an array); the
  elements of the array are strings, as the cast declares. For the saved state every
  field is present and of its declared type.
\<close>

type_synonym ActivePayload = "string list option"

text \<open>\<^verbatim>\<open>SavedPaletteState\<close>; the fields carry the prefix \<open>saved\<close>.\<close>

record SavedPaletteState =
  savedColors :: "PaletteColor list"
  savedFormat :: ColorCodeType
  savedSize :: nat
  savedIsDarkPreview :: bool

text \<open>
  A string or \<^verbatim>\<open>null\<close> under \<^verbatim>\<open>if (raw)\<close>: \<^verbatim>\<open>null\<close> (an absent key, for
  \<^verbatim>\<open>getItem\<close>) and the empty string are falsy, \<open>None\<close> here; any other string is kept.
\<close>

definition truthy :: "string option \<Rightarrow> string option" where
  "truthy raw = (case raw of None \<Rightarrow> None | Some str \<Rightarrow> if str = [] then None else Some str)"

definition loadFromStorage ::
  "(string \<Rightarrow> SavedPaletteState parsed) \<Rightarrow> GeneratorState \<Rightarrow> GeneratorState"
where
  "loadFromStorage parseState s =
     (case truthy (localStorage s STORAGE_KEY) of
        None \<Rightarrow> s
      | Some raw \<Rightarrow>
          (case parseState raw of
             SyntaxError \<Rightarrow> s
           | Null \<Rightarrow> s
           | Parsed p \<Rightarrow>
               s\<lparr>format := savedFormat p, paletteSize := savedSize p,
                 colors := savedColors p, isDarkPreview := savedIsDarkPreview p\<rparr>))"

text \<open>
  The \<^verbatim>\<open>try\<close> block of \<^verbatim>\<open>onMounted\<close>: every exception is caught and leaves the state
  as it is; \<open>None\<close> is a generation that never returns.
\<close>

definition applyFromLibrary ::
  "(string \<Rightarrow> ActivePayload parsed) \<Rightarrow> random_source \<Rightarrow> string \<Rightarrow> GeneratorState \<Rightarrow>
   GeneratorState option"
where
  "applyFromLibrary parseActive f activeRaw s =
     (case parseActive activeRaw of
        SyntaxError \<Rightarrow> Some s
      | Null \<Rightarrow> Some s
      | Parsed None \<Rightarrow> Some s
      | Parsed (Some libraryColors) \<Rightarrow>
          if length libraryColors = 0 then Some s
          else
            let fromLibrary = map unpinned libraryColors;
                s1 = (if paletteSize s < length fromLibrary
                      then s\<lparr>paletteSize := length fromLibrary\<rparr> else s)
            in if length fromLibrary < paletteSize s1 then
                 (let missing = paletteSize s1 - length fromLibrary in
                  case generateRandomPaletteValues f (format s1) missing (randomPos s1) of
                    None \<Rightarrow> None
                  | Some (newValues, pos') \<Rightarrow>
                      Some (s1\<lparr>colors := take (paletteSize s1) (fromLibrary @ map unpinned newValues),
                              randomPos := pos'\<rparr>))
               else Some (s1\<lparr>colors := take (paletteSize s1) fromLibrary\<rparr>))"

definition removeItem :: "string \<Rightarrow> GeneratorState \<Rightarrow> GeneratorState" where
  "removeItem key s = s\<lparr>localStorage := (localStorage s)(key := None)\<rparr>"

definition onMounted ::
  "(string \<Rightarrow> ActivePayload parsed) \<Rightarrow> (string \<Rightarrow> SavedPaletteState parsed) \<Rightarrow>
   random_source \<Rightarrow> GeneratorState \<Rightarrow> GeneratorState option"
where
  "onMounted parseActive parseState f s =
     (case truthy (localStorage s ACTIVE_PALETTE_KEY) of
        Some activeRaw \<Rightarrow>
          (case applyFromLibrary parseActive f activeRaw s of
             None \<Rightarrow> None
           | Some s1 \<Rightarrow> Some (removeItem ACTIVE_PALETTE_KEY s1))
      | None \<Rightarrow>
          (let s1 = loadFromStorage parseState s in
           if length (colors s1) = 0 then
             (case generateRandomPaletteValues f (format s1) (paletteSize s1) (randomPos s1) of
                None \<Rightarrow> None
              | Some (newValues, pos') \<Rightarrow>
                  Some (s1\<lparr>colors := map unpinned newValues, randomPos := pos'\<rparr>))
           else ensurePaletteSize f s1))"

text \<open>The state of the component before \<^verbatim>\<open>onMounted\<close> runs: the initial values of its refs.\<close>

definition initialState :: "(string \<rightharpoonup> string) \<Rightarrow> nat \<Rightarrow> GeneratorState" where
  "initialState store pos =
     \<lparr>format = HEX, paletteSize = 5, colors = [], pinedColors = [], isDarkPreview = True,
      localStorage = store, randomPos = pos\<rparr>"

section \<open>Palette library\<close>

text \<open>\<^verbatim>\<open>SavedPaletteItem\<close>; \<^verbatim>\<open>id\<close>, \<^verbatim>\<open>name\<close>, \<^verbatim>\<open>tags\<close> and \<^verbatim>\<open>colors\<close> carry the prefix \<open>item\<close>.\<close>

record SavedPaletteItem =
  itemId :: string
  itemName :: string
  itemTags :: "string list"
  itemColors :: "string list"
  favorite :: bool
  createdAt :: string

text \<open>The refs of the library view that \<^verbatim>\<open>saveEdit\<close> reads and writes.\<close>

record LibraryState =
  items :: "SavedPaletteItem list"
  editingId :: "string option"
  editName :: string
  editTags :: string

definition trim :: "string \<Rightarrow> string" where
  "trim s = rev (dropWhile isWhiteSpace (rev (dropWhile isWhiteSpace s)))"

text \<open>\<^verbatim>\<open>String.prototype.split(",")\<close>: the empty string splits into one empty piece.\<close>

fun split :: "char \<Rightarrow> string \<Rightarrow> string list" where
  "split sep [] = [[]]"
| "split sep (c # cs) =
     (if c = sep then [] # split sep cs
      else case split sep cs of [] \<Rightarrow> [[c]] | w # ws \<Rightarrow> (c # w) # ws)"

text \<open>\<^verbatim>\<open>Array.prototype.find\<close> followed by a write to the object found: the first match changes.\<close>

fun updateFirst :: "('a \<Rightarrow> bool) \<Rightarrow> ('a \<Rightarrow> 'a) \<Rightarrow> 'a list \<Rightarrow> 'a list" where
  "updateFirst p u [] = []"
| "updateFirst p u (x # xs) = (if p x then u x # xs else x # updateFirst p u xs)"

definition saveEdit :: "LibraryState \<Rightarrow> LibraryState" where
  "saveEdit st =
     (case truthy (editingId st) of
        None \<Rightarrow> st
      | Some eid \<Rightarrow>
          (case find (\<lambda>i. itemId i = eid) (items st) of
             None \<Rightarrow> st
           | Some _ \<Rightarrow>
               st\<lparr>items :=
                    updateFirst (\<lambda>i. itemId i = eid)
                      (\<lambda>found. found\<lparr>
                         itemName := (if trim (editName st) \<noteq> [] then trim (editName st)
                                      else itemName found),
                         itemTags := filter (\<lambda>t. t \<noteq> []) (map trim (split CHR '','' (editTags st)))\<rparr>)
                      (items st),
                  editingId := None, editName := [], editTags := []\<rparr>))"

text \<open>
  The tag list as the specification words it: split on commas, trimmed, empty strings
  filtered out, duplicates removed keeping the first occurrence.
\<close>

definition specTags :: "string \<Rightarrow> string list" where
  "specTags input = rev (remdups (rev (filter (\<lambda>t. t \<noteq> []) (map trim (split CHR '','' input)))))"

section \<open>Vocabulary of the proofs\<close>

text \<open>
  The triple of samples read at a position passes the test of the rejection loop; a
  source in which, from every position, some later round of the loop passes it; and
  the source whose samples are all \<open>0\<close>, which generates black.
\<close>

definition acceptedAt :: "random_source \<Rightarrow> nat \<Rightarrow> bool" where
  "acceptedAt f pos =
     isAaaContrastWithWhite (getRandomInt f pos 0 120) (getRandomInt f (pos + 1) 0 120)
       (getRandomInt f (pos + 2) 0 120)"

definition acceptsEventually :: "random_source \<Rightarrow> bool" where
  "acceptsEventually f = (\<forall>pos. \<exists>k. acceptedAt f (pos + 3 * k))"

definition zeroSource :: random_source where
  "zeroSource = (\<lambda>_. 0)"


text \<open>A value the generator can return in an encoding: the string of an accepted colour.\<close>

definition generatedValue :: "ColorCodeType \<Rightarrow> string \<Rightarrow> bool" where
  "generatedValue type v =
     (\<exists>c. isAaaContrastWithWhite (r c) (g c) (b c) \<and> v = colorString type c)"

text \<open>
  Example states: the palette of the regeneration scenario, and a palette of seven
  slots whose last two are pinned.
\<close>

definition pinnedSlot :: "string \<Rightarrow> PaletteColor" where
  "pinnedSlot v = \<lparr>value' = v, isPinned = True\<rparr>"



text \<open>
  The contrast ratio that the scan of \<open>accentColor\<close> computes for a slot against the
  luminance of the reference, \<open>None\<close> for a slot it skips; the index of the first slot
  whose ratio is the greatest of the palette; and an example palette.
\<close>

definition slotRatio :: "real \<Rightarrow> PaletteColor \<Rightarrow> real option" where
  "slotRatio midL c =
     (case parseHexToRgb (hexOf c) of
        None \<Rightarrow> None
      | Some rgb \<Rightarrow> Some (getContrastRatio midL (getRelativeLuminance (r rgb) (g rgb) (b rgb))))"

definition firstBest :: "real \<Rightarrow> PaletteColor list \<Rightarrow> nat \<Rightarrow> real \<Rightarrow> bool" where
  "firstBest midL cs k ratio =
     (k < length cs \<and> slotRatio midL (cs ! k) = Some ratio \<and>
      (\<forall>j < length cs. \<forall>x. slotRatio midL (cs ! j) = Some x \<longrightarrow> x \<le> ratio) \<and>
      (\<forall>j < k. \<forall>x. slotRatio midL (cs ! j) = Some x \<longrightarrow> x < ratio))"

definition accentExample :: "PaletteColor list" where
  "accentExample =
     [unpinned ''050505'', unpinned ''0a0a0a'', unpinned ''rgb(0, 0, 0)'', unpinned ''zzz'',
      unpinned ''000000'']"

text \<open>An example library: one entry, under edit.\<close>

definition exampleItem :: SavedPaletteItem where
  "exampleItem =
     \<lparr>itemId = ''pal_1'', itemName = ''Old'', itemTags = [''generated''],
      itemColors = [''112233''], favorite = False, createdAt = ''2024-01-01T00:00:00.000Z''\<rparr>"

definition exampleLibrary :: LibraryState where
  "exampleLibrary =
     \<lparr>items = [exampleItem], editingId = Some ''pal_1'', editName = '' Sunset '',
      editTags = ''a, b,,a ''\<rparr>"

text \<open>
  Example storage contents: the text of a saved state and the state it parses to, the
  text of a handoff, readings of \<^verbatim>\<open>JSON.parse\<close> that agree with it on these
  texts, a store whose handoff key holds the empty string and a store whose handoff key
  holds text that is no JSON.
\<close>

definition exampleStateText :: string where
  \<open>exampleStateText =
     ''{"colors":[{"value":"112233","isPinned":true},{"value":"01020a","isPinned":false},{"value":"000000","isPinned":false}],"format":"HEX","size":3,"isDarkPreview":false}''\<close>

definition exampleSaved :: SavedPaletteState where
  "exampleSaved =
     \<lparr>savedColors = [\<lparr>value' = ''112233'', isPinned = True\<rparr>, unpinned ''01020a'', unpinned ''000000''],
      savedFormat = HEX, savedSize = 3, savedIsDarkPreview = False\<rparr>"

definition exampleParseState :: "string \<Rightarrow> SavedPaletteState parsed" where
  "exampleParseState raw = (if raw = exampleStateText then Parsed exampleSaved else SyntaxError)"

definition exampleHandoffText :: string where
  \<open>exampleHandoffText = ''{"colors":["aa0000","00bb00"]}''\<close>

definition exampleParseActive :: "string \<Rightarrow> ActivePayload parsed" where
  "exampleParseActive raw =
     (if raw = exampleHandoffText then Parsed (Some [''aa0000'', ''00bb00''])
      else if raw = ''{}'' then Parsed None
      else if raw = ''null'' then Null
      else SyntaxError)"

definition staleStore :: "string \<rightharpoonup> string" where
  "staleStore = [ACTIVE_PALETTE_KEY \<mapsto> [], STORAGE_KEY \<mapsto> exampleStateText]"

definition brokenStore :: "string \<rightharpoonup> string" where
  "brokenStore = [ACTIVE_PALETTE_KEY \<mapsto> ''{colors'', STORAGE_KEY \<mapsto> exampleStateText]"

text \<open>The state after a load from \<open>staleStore\<close>.\<close>

definition mountedExample :: GeneratorState where
  "mountedExample =
     \<lparr>format = HEX, paletteSize = 3, colors = savedColors exampleSaved, pinedColors = [],
      isDarkPreview = False, localStorage = staleStore, randomPos = 0\<rparr>"

text \<open>
  The states the generator view can be in: the state after \<open>onMounted\<close>, and from there
  any state after a regeneration, a change of size or of format, a pin toggle, a toggle
  of the preview background or a write to the storage.
\<close>

inductive reachable ::
  "(string \<Rightarrow> ActivePayload parsed) \<Rightarrow> (string \<Rightarrow> SavedPaletteState parsed) \<Rightarrow> random_source \<Rightarrow>
   GeneratorState \<Rightarrow> bool"
  for parseActive parseState f
where
  mounted: "onMounted parseActive parseState f (initialState store pos) = Some s \<Longrightarrow>
     reachable parseActive parseState f s"
| regenerated: "reachable parseActive parseState f s \<Longrightarrow> generateNewPalette f s = Some s' \<Longrightarrow>
     reachable parseActive parseState f s'"
| resized: "reachable parseActive parseState f s \<Longrightarrow> resize f n s = Some s' \<Longrightarrow>
     reachable parseActive parseState f s'"
| reformatted: "reachable parseActive parseState f s \<Longrightarrow> changeFormat f t s = Some s' \<Longrightarrow>
     reachable parseActive parseState f s'"
| pinToggled: "reachable parseActive parseState f s \<Longrightarrow>
     reachable parseActive parseState f (handleTogglePin i s)"
| previewToggled: "reachable parseActive parseState f s \<Longrightarrow>
     reachable parseActive parseState f (s\<lparr>isDarkPreview := \<not> isDarkPreview s\<rparr>)"
| stored: "reachable parseActive parseState f s \<Longrightarrow>
     reachable parseActive parseState f (s\<lparr>localStorage := store\<rparr>)"

section \<open>Properties of the colour model\<close>

lemma hex_not_ws: "isHexDigit c \<Longrightarrow> \<not> isWhiteSpace c"
  by (auto simp: isHexDigit_def hexDigitValue_def isWhiteSpace_def Let_def split: if_splits)

lemma hex_not_special:
  "isHexDigit c \<Longrightarrow> c \<noteq> CHR ''#'' \<and> c \<noteq> CHR ''+'' \<and> c \<noteq> CHR ''-'' \<and> c \<noteq> CHR ''x'' \<and> c \<noteq> CHR ''X''"
  by (auto simp: isHexDigit_def hexDigitValue_def Let_def split: if_splits)

lemma hexDigitValue_digitChar:
  assumes "hexDigitValue c = Some d"
  shows "d < 16 \<and> digitChar d = toLowerCase c"
proof -
  define n where "n = (of_char c :: nat)"
  have c: "c = char_of n" by (simp add: n_def)
  show ?thesis
    using assms unfolding hexDigitValue_def digitChar_def toLowerCase_def Let_def n_def[symmetric]
    by (auto simp: c split: if_splits)
qed

lemma parseInt16_two_hex:
  assumes "hexDigitValue x = Some dx" "hexDigitValue y = Some dy"
  shows "parseInt16 [x, y] = Num (int (16 * dx + dy))"
proof -
  have hx: "isHexDigit x" and hy: "isHexDigit y"
    using assms by (simp_all add: isHexDigit_def)
  show ?thesis
    using assms hx hy hex_not_ws[OF hx] hex_not_special[OF hx] hex_not_special[OF hy]
    by (simp add: parseInt16_def stripHexPrefix_def)
qed

lemma toString16_two_hex:
  assumes "hexDigitValue x = Some dx" "hexDigitValue y = Some dy"
  shows "padStart 2 (toStringRadix 16 (Num (int (16 * dx + dy)))) = [toLowerCase x, toLowerCase y]"
proof -
  have dx: "dx < 16" "digitChar dx = toLowerCase x"
    using hexDigitValue_digitChar[OF assms(1)] by simp_all
  have dy: "dy < 16" "digitChar dy = toLowerCase y"
    using hexDigitValue_digitChar[OF assms(2)] by simp_all
  define n where "n = 16 * dx + dy"
  have str: "toStringRadix 16 (Num (int n)) = natToString 16 n"
    by (simp add: toStringRadix_def)
  have zero: "digitChar 0 = CHR ''0''"
    by (simp add: digitChar_def char_of_eq_iff take_bit_eq_mod)
  have "padStart 2 (natToString 16 n) = [toLowerCase x, toLowerCase y]"
  proof (cases "dx = 0")
    case True
    then have "n = dy" by (simp add: n_def)
    then have "natToString 16 n = [toLowerCase y]"
      using dy by simp
    moreover have "toLowerCase x = CHR ''0''"
      using True zero dx(2) by simp
    ultimately show ?thesis
      by (simp add: padStart_def)
  next
    case False
    then have big: "\<not> n < 16" by (simp add: n_def)
    have dm: "n div 16 = dx" "n mod 16 = dy"
      using dy(1) by (simp_all add: n_def)
    have "natToString 16 n = natToString 16 dx @ [digitChar dy]"
      using big dm natToString.simps[of 16 n] by simp
    also have "natToString 16 dx = [digitChar dx]"
      using dx(1) by simp
    finally show ?thesis
      using dx dy by (simp add: padStart_def)
  qed
  then show ?thesis
    using str by (simp only: n_def)
qed

lemma removeFirstHash_hex: "\<forall>c\<in>set h. isHexDigit c \<Longrightarrow> removeFirstHash h = h"
  by (induction h) (auto dest: hex_not_special)

text \<open>
  Claim C6. For every string \<open>h\<close> of exactly six hex digits, \<open>parseHexToRgb h\<close> returns
  a triple, and \<open>rgbToHex\<close> of that triple is \<open>h\<close> in lower case: each channel is
  printed as two hex digits, zero-padded.
\<close>

theorem hex_round_trip:
  assumes "length h = 6" and "\<forall>c\<in>set h. isHexDigit c"
  shows "map_option (\<lambda>c. rgbToHex (Num (r c)) (Num (g c)) (Num (b c))) (parseHexToRgb h)
         = Some (map toLowerCase h)"
proof -
  obtain c1 c2 c3 c4 c5 c6 where h: "h = [c1, c2, c3, c4, c5, c6]"
    using assms(1) by (auto simp: length_Suc_conv eval_nat_numeral)
  from assms(2) obtain d1 d2 d3 d4 d5 d6 where
    d: "hexDigitValue c1 = Some d1" "hexDigitValue c2 = Some d2" "hexDigitValue c3 = Some d3"
       "hexDigitValue c4 = Some d4" "hexDigitValue c5 = Some d5" "hexDigitValue c6 = Some d6"
    unfolding h isHexDigit_def by auto
  have clean: "removeFirstHash h = h"
    using assms(2) by (rule removeFirstHash_hex)
  have p: "parseHexToRgb h =
      Some \<lparr>r = int (16 * d1 + d2), g = int (16 * d3 + d4), b = int (16 * d5 + d6)\<rparr>"
    unfolding parseHexToRgb_def clean Let_def
    by (simp add: h parseInt16_two_hex[OF d(1,2)] parseInt16_two_hex[OF d(3,4)]
        parseInt16_two_hex[OF d(5,6)])
  show ?thesis
    unfolding p rgbToHex_def
    using toString16_two_hex[OF d(1,2)] toString16_two_hex[OF d(3,4)] toString16_two_hex[OF d(5,6)]
    by (simp add: h)
qed

theorem hex_round_trip_witness:
  "length ''1A2b3C'' = 6 \<and> list_all isHexDigit ''1A2b3C'' \<and>
   parseHexToRgb ''1A2b3C'' = Some \<lparr>r = 26, g = 43, b = 60\<rparr> \<and>
   rgbToHex (Num 26) (Num 43) (Num 60) = ''1a2b3c'' \<and>
   map_option (\<lambda>c. rgbToHex (Num (r c)) (Num (g c)) (Num (b c))) (parseHexToRgb ''1A2b3C'')
     = Some ''1a2b3c''"
proof -
  have h: "\<forall>c\<in>set ''1A2b3C''. isHexDigit c"
    by (simp add: isHexDigit_def hexDigitValue_def)
  have p: "parseHexToRgb ''1A2b3C'' = Some \<lparr>r = 26, g = 43, b = 60\<rparr>"
    by (simp add: parseHexToRgb_def parseInt16_def stripHexPrefix_def isHexDigit_def
        hexDigitValue_def isWhiteSpace_def)
  have t: "rgbToHex (Num 26) (Num 43) (Num 60) = ''1a2b3c''"
    by (simp add: rgbToHex_def toStringRadix_def padStart_def digitChar_def
        char_of_eq_iff take_bit_eq_mod)
  show ?thesis
    using hex_round_trip[OF _ h] h p t by (simp add: toLowerCase_def list_all_iff)
qed

lemma parseHexToRgb_wrong_length:
  "length (removeFirstHash hex) \<noteq> 6 \<Longrightarrow> parseHexToRgb hex = None"
  by (simp add: parseHexToRgb_def)

text \<open>
  Claim C7. The claim is that a six-character input with a character that is no hex
  digit, at any position, gives \<^verbatim>\<open>null\<close>. The code reads each channel with
  \<^verbatim>\<open>parseInt\<close>, which stops at the first character that is no digit and returns what
  it has read: \<open>1g0000\<close> is parsed to the triple \<open>(1, 0, 0)\<close>.
\<close>

theorem parseHexToRgb_accepts_non_hex:
  "parseHexToRgb ''1g0000'' = Some \<lparr>r = 1, g = 0, b = 0\<rparr> \<and> \<not> list_all isHexDigit ''1g0000''"
  by (simp add: parseHexToRgb_def parseInt16_def stripHexPrefix_def isHexDigit_def
        hexDigitValue_def isWhiteSpace_def)


section \<open>Properties of the generator\<close>



lemma getRandomAaaRgbColor_sound:
  assumes "getRandomAaaRgbColor f0 pos0 = Some y0"
  shows "\<exists>p. fst y0 = \<lparr>r = getRandomInt f0 p 0 120, g = getRandomInt f0 (p + 1) 0 120,
                        b = getRandomInt f0 (p + 2) 0 120\<rparr> \<and> acceptedAt f0 p \<and> snd y0 = p + 3"
proof (rule getRandomAaaRgbColor.raw_induct[where P = "\<lambda>f pos y.
    \<exists>p. fst y = \<lparr>r = getRandomInt f p 0 120, g = getRandomInt f (p + 1) 0 120,
                   b = getRandomInt f (p + 2) 0 120\<rparr> \<and> acceptedAt f p \<and> snd y = p + 3",
    OF _ assms], goal_cases)
  case (1 rec f pos y)
  show ?case
  proof (cases "acceptedAt f pos")
    case True
    with 1(2) show ?thesis
      by (auto simp: acceptedAt_def Let_def)
  next
    case False
    with 1(2) have "rec f (pos + 3) = Some y"
      by (simp add: acceptedAt_def Let_def)
    then show ?thesis
      by (rule 1(1))
  qed
qed

lemma getRandomAaaRgbColor_returns:
  "acceptedAt f (pos + 3 * k) \<Longrightarrow> \<exists>y. getRandomAaaRgbColor f pos = Some y"
proof (induction k arbitrary: pos)
  case 0
  then show ?case
    by (subst getRandomAaaRgbColor.simps) (simp add: acceptedAt_def Let_def)
next
  case (Suc k)
  then have "acceptedAt f ((pos + 3) + 3 * k)"
    by (simp add: add.assoc)
  then obtain y where "getRandomAaaRgbColor f (pos + 3) = Some y"
    using Suc.IH by blast
  then show ?case
    by (subst getRandomAaaRgbColor.simps) (simp add: Let_def)
qed

lemma acceptedAt_zeroSource: "acceptedAt zeroSource pos"
  by (simp add: acceptedAt_def zeroSource_def getRandomInt_def isAaaContrastWithWhite_def
      getRelativeLuminance_def srgbChannelToLinear_def getContrastRatio_def AAA_CONTRAST_RATIO_def)

lemma acceptsEventually_zeroSource: "acceptsEventually zeroSource"
  unfolding acceptsEventually_def using acceptedAt_zeroSource by blast

lemma getRandomAaaRgbColor_zeroSource:
  "getRandomAaaRgbColor zeroSource pos = Some (\<lparr>r = 0, g = 0, b = 0\<rparr>, pos + 3)"
  by (subst getRandomAaaRgbColor.simps)
     (simp add: zeroSource_def getRandomInt_def isAaaContrastWithWhite_def getRelativeLuminance_def
        srgbChannelToLinear_def getContrastRatio_def AAA_CONTRAST_RATIO_def)



lemma generateLoop_length:
  "generateLoop f type n result pos = Some (vs, pos') \<Longrightarrow> \<exists>new. vs = result @ new \<and> length new = n"
proof (induction n arbitrary: result pos)
  case 0
  then show ?case by simp
next
  case (Suc n)
  from Suc.prems obtain c p1 where
    rest: "generateLoop f type n (result @ [colorString type c]) p1 = Some (vs, pos')"
    by (auto split: option.splits)
  from Suc.IH[OF rest] obtain new where "vs = (result @ [colorString type c]) @ new" "length new = n"
    by blast
  then have "vs = result @ (colorString type c # new) \<and> length (colorString type c # new) = Suc n"
    by simp
  then show ?case by blast
qed

lemma generateRandomPaletteValues_length:
  "generateRandomPaletteValues f type n pos = Some (vs, pos') \<Longrightarrow> length vs = n"
  unfolding generateRandomPaletteValues_def by (drule generateLoop_length) auto

lemma generateLoop_returns:
  assumes "acceptsEventually f"
  shows "\<exists>y. generateLoop f type n result pos = Some y"
proof (induction n arbitrary: result pos)
  case 0
  show ?case by simp
next
  case (Suc n)
  from assms obtain k where "acceptedAt f (pos + 3 * k)"
    unfolding acceptsEventually_def by blast
  then obtain c p1 where "getRandomAaaRgbColor f pos = Some (c, p1)"
    using getRandomAaaRgbColor_returns by fastforce
  then show ?case
    using Suc.IH by simp
qed

lemma generateRandomPaletteValues_returns:
  "acceptsEventually f \<Longrightarrow> \<exists>y. generateRandomPaletteValues f type n pos = Some y"
  unfolding generateRandomPaletteValues_def by (rule generateLoop_returns)


lemma generateLoop_zeroSource:
  "generateLoop zeroSource type n result pos =
     Some (result @ replicate n (colorString type \<lparr>r = 0, g = 0, b = 0\<rparr>), pos + 3 * n)"
proof (induction n arbitrary: result pos)
  case 0
  show ?case by simp
next
  case (Suc n)
  show ?case
    by (simp add: getRandomAaaRgbColor_zeroSource Suc.IH replicate_app_Cons_same)
qed

lemma colorString_black: "colorString HEX \<lparr>r = 0, g = 0, b = 0\<rparr> = ''000000''"
  by (simp add: colorString_def rgbToHex_def toStringRadix_def padStart_def digitChar_def
      char_of_eq_iff take_bit_eq_mod)

lemma generate_zeroSource:
  "generateRandomPaletteValues zeroSource HEX n pos = Some (replicate n ''000000'', pos + 3 * n)"
  by (simp add: generateRandomPaletteValues_def generateLoop_zeroSource colorString_black)


section \<open>Properties of the palette engine\<close>

lemma getRandomAaaRgbColor_accepted:
  assumes "getRandomAaaRgbColor f pos = Some (c, pos')"
  shows "isAaaContrastWithWhite (r c) (g c) (b c)"
  using getRandomAaaRgbColor_sound[OF assms] by (auto simp: acceptedAt_def)

lemma generateLoop_generated:
  "generateLoop f type n result pos = Some (vs, pos') \<Longrightarrow>
   \<exists>new. vs = result @ new \<and> length new = n \<and> list_all (generatedValue type) new"
proof (induction n arbitrary: result pos)
  case 0
  then show ?case by simp
next
  case (Suc n)
  from Suc.prems obtain c p1 where
    one: "getRandomAaaRgbColor f pos = Some (c, p1)" and
    rest: "generateLoop f type n (result @ [colorString type c]) p1 = Some (vs, pos')"
    by (auto split: option.splits)
  from Suc.IH[OF rest] obtain new where
    new: "vs = (result @ [colorString type c]) @ new" "length new = n"
      "list_all (generatedValue type) new"
    by blast
  have "generatedValue type (colorString type c)"
    using getRandomAaaRgbColor_accepted[OF one] unfolding generatedValue_def by blast
  with new have "vs = result @ (colorString type c # new) \<and>
      length (colorString type c # new) = Suc n \<and>
      list_all (generatedValue type) (colorString type c # new)"
    by simp
  then show ?case by blast
qed

lemma generateRandomPaletteValues_generated:
  assumes "generateRandomPaletteValues f type n pos = Some (vs, pos')"
  shows "length vs = n \<and> list_all (generatedValue type) vs"
  using generateLoop_generated[of f type n "[]" pos vs pos'] assms
  by (simp add: generateRandomPaletteValues_def)

lemma pushNewValues_eq:
  "pushNewValues cs newValues i result =
     result @ map unpinned (take (length (filter (\<lambda>c. \<not> isPinned c) cs)) (drop i newValues))"
proof (induction cs arbitrary: i result)
  case Nil
  show ?case by simp
next
  case (Cons c cs)
  show ?case
  proof (cases "\<not> isPinned c \<and> i < length newValues")
    case True
    then have "drop i newValues = newValues ! i # drop (Suc i) newValues"
      by (simp add: Cons_nth_drop_Suc)
    with True show ?thesis
      by (simp add: Cons.IH)
  next
    case False
    then show ?thesis
      by (auto simp: Cons.IH)
  qed
qed

lemma fillToSize_sound:
  assumes "fillToSize f0 type0 n0 result0 pos0 = Some y0"
  shows "\<exists>vs. fst y0 = result0 @ map unpinned vs \<and> list_all (generatedValue type0) vs \<and>
              length (fst y0) = max (length result0) n0"
proof (rule fillToSize.raw_induct[where P = "\<lambda>f type n result pos y.
    \<exists>vs. fst y = result @ map unpinned vs \<and> list_all (generatedValue type) vs \<and>
         length (fst y) = max (length result) n", OF _ assms], goal_cases)
  case (1 rec f type n result pos y)
  show ?case
  proof (cases "length result < n")
    case False
    with 1(2) show ?thesis
      by (intro exI[of _ "[]"]) auto
  next
    case True
    with 1(2) obtain extraValues p1 where
      gen: "generateRandomPaletteValues f type 1 pos = Some (extraValues, p1)" and
      rest: "(case extraValues of [] \<Rightarrow> rec f type n result p1
              | v # _ \<Rightarrow> rec f type n (result @ [unpinned v]) p1) = Some y"
      by (auto split: option.splits)
    from generateRandomPaletteValues_generated[OF gen] obtain v where
      v: "extraValues = [v]" "generatedValue type v"
      by (cases extraValues) auto
    with rest have "rec f type n (result @ [unpinned v]) p1 = Some y"
      by simp
    from 1(1)[OF this] obtain vs where
      vs: "fst y = (result @ [unpinned v]) @ map unpinned vs" "list_all (generatedValue type) vs"
        "length (fst y) = max (length (result @ [unpinned v])) n"
      by blast
    with True v(2) have "fst y = result @ map unpinned (v # vs) \<and>
        list_all (generatedValue type) (v # vs) \<and> length (fst y) = max (length result) n"
      by auto
    then show ?thesis by blast
  qed
qed

lemma fillToSize_returns:
  assumes "acceptsEventually f"
  shows "\<exists>y. fillToSize f type n result pos = Some y"
proof (induction "n - length result" arbitrary: result pos)
  case 0
  then show ?case
    by (subst fillToSize.simps) simp
next
  case (Suc d)
  obtain extraValues p1 where
    gen: "generateRandomPaletteValues f type 1 pos = Some (extraValues, p1)"
    using generateRandomPaletteValues_returns[OF assms] by fastforce
  from generateRandomPaletteValues_generated[OF gen] obtain v where v: "extraValues = [v]"
    by (cases extraValues) auto
  have "d = n - length (result @ [unpinned v])"
    using Suc.hyps(2) by simp
  from Suc.hyps(1)[OF this] obtain y where "fillToSize f type n (result @ [unpinned v]) p1 = Some y"
    by blast
  moreover have "length result < n"
    using Suc.hyps(2) by simp
  ultimately show ?case
    using gen v by (subst fillToSize.simps) simp
qed

lemma generateNewPalette_result:
  assumes "generateNewPalette f s = Some s'"
  shows "\<exists>vs. s' = s\<lparr>colors := take (paletteSize s) (filter isPinned (colors s) @ map unpinned vs),
                       randomPos := randomPos s'\<rparr> \<and>
              paletteSize s \<le> length (filter isPinned (colors s) @ map unpinned vs) \<and>
              list_all (generatedValue (format s)) vs"
proof -
  from assms obtain newValues pos1 result3 pos2 where
    gen: "generateRandomPaletteValues f (format s)
            (nat (max 0 (int (paletteSize s) - int (length (filter isPinned (colors s))))))
            (randomPos s) = Some (newValues, pos1)" and
    fill: "fillToSize f (format s) (paletteSize s)
             (pushNewValues (colors s) newValues 0 (filter isPinned (colors s))) pos1
           = Some (result3, pos2)" and
    s': "s' = s\<lparr>colors := take (paletteSize s) result3, randomPos := pos2\<rparr>"
    by (auto simp: generateNewPalette_def Let_def split: option.splits)
  define used where
    "used = take (length (filter (\<lambda>c. \<not> isPinned c) (colors s))) newValues"
  have push: "pushNewValues (colors s) newValues 0 (filter isPinned (colors s))
      = filter isPinned (colors s) @ map unpinned used"
    by (simp add: pushNewValues_eq used_def)
  have gen_all: "list_all (generatedValue (format s)) newValues"
    using generateRandomPaletteValues_generated[OF gen] by simp
  then have used_ok: "list_all (generatedValue (format s)) used"
    unfolding used_def list_all_iff by (auto dest: in_set_takeD)
  from fillToSize_sound[OF fill] obtain vs where
    vs: "result3 = (filter isPinned (colors s) @ map unpinned used) @ map unpinned vs"
      "list_all (generatedValue (format s)) vs"
      "length result3 = max (length (filter isPinned (colors s) @ map unpinned used)) (paletteSize s)"
    unfolding push by auto
  have "s' = s\<lparr>colors := take (paletteSize s) (filter isPinned (colors s) @ map unpinned (used @ vs)),
                randomPos := randomPos s'\<rparr>"
    using s' vs(1) by simp
  moreover have "paletteSize s \<le> length (filter isPinned (colors s) @ map unpinned (used @ vs))"
    using vs(1,3) by simp
  moreover have "list_all (generatedValue (format s)) (used @ vs)"
    using used_ok vs(2) by simp
  ultimately show ?thesis by blast
qed

lemma generateNewPalette_returns:
  assumes "acceptsEventually f"
  shows "\<exists>s'. generateNewPalette f s = Some s'"
proof -
  obtain newValues pos1 where
    gen: "generateRandomPaletteValues f (format s)
            (nat (max 0 (int (paletteSize s) - int (length (filter isPinned (colors s))))))
            (randomPos s) = Some (newValues, pos1)"
    using generateRandomPaletteValues_returns[OF assms] by fastforce
  obtain result3 pos2 where
    "fillToSize f (format s) (paletteSize s)
       (pushNewValues (colors s) newValues 0 (filter isPinned (colors s))) pos1
     = Some (result3, pos2)"
    using fillToSize_returns[OF assms] by fastforce
  with gen show ?thesis
    by (simp add: generateNewPalette_def Let_def)
qed

lemma handleChangeFormat_eq: "handleChangeFormat f s = generateNewPalette f s"
  by (simp add: handleChangeFormat_def generateNewPalette_def)

lemma fillToSize_full:
  "\<not> length result < n \<Longrightarrow> fillToSize f type n result pos = Some (result, pos)"
  by (subst fillToSize.simps) simp





lemma generateNewPalette_keeps_pinned:
  assumes "length (filter isPinned (colors s)) \<le> paletteSize s"
  shows "(\<forall>s'. generateNewPalette f s = Some s' \<longrightarrow>
            filter isPinned (colors s') = filter isPinned (colors s)) \<and>
         (acceptsEventually f \<longrightarrow> generateNewPalette f s \<noteq> None)"
proof (intro conjI allI impI)
  fix s'
  assume ret: "generateNewPalette f s = Some s'"
  from generateNewPalette_result[OF ret] obtain vs where
    vs: "s' = s\<lparr>colors := take (paletteSize s) (filter isPinned (colors s) @ map unpinned vs),
                 randomPos := randomPos s'\<rparr>"
    by blast
  have c: "colors s' = filter isPinned (colors s) @
      take (paletteSize s - length (filter isPinned (colors s))) (map unpinned vs)"
    using assms by (subst vs) simp
  have "filter isPinned (take k (map unpinned vs)) = []" for k
    by (auto simp: filter_empty_conv unpinned_def dest!: in_set_takeD)
  then show "filter isPinned (colors s') = filter isPinned (colors s)"
    by (simp add: c)
next
  assume "acceptsEventually f"
  then show "generateNewPalette f s \<noteq> None"
    using generateNewPalette_returns[of f s] by auto
qed

lemma ensurePaletteSize_result:
  assumes "ensurePaletteSize f s = Some s'"
  shows "length (colors s') = paletteSize s \<and> paletteSize s' = paletteSize s \<and> format s' = format s \<and>
         (if length (colors s) < paletteSize s
          then \<exists>vs. colors s' = colors s @ map unpinned vs \<and>
                    length vs = paletteSize s - length (colors s) \<and>
                    list_all (generatedValue (format s)) vs
          else colors s' = take (paletteSize s) (colors s))"
proof (cases "length (colors s) < paletteSize s")
  case True
  with assms obtain newValues pos' where
    gen: "generateRandomPaletteValues f (format s) (paletteSize s - length (colors s)) (randomPos s)
          = Some (newValues, pos')" and
    s': "s' = s\<lparr>colors := colors s @ map unpinned newValues, randomPos := pos'\<rparr>"
    by (auto simp: ensurePaletteSize_def Let_def split: option.splits)
  from generateRandomPaletteValues_generated[OF gen] have
    nv: "length newValues = paletteSize s - length (colors s)"
      "list_all (generatedValue (format s)) newValues"
    by simp_all
  have "\<exists>vs. colors s' = colors s @ map unpinned vs \<and>
             length vs = paletteSize s - length (colors s) \<and>
             list_all (generatedValue (format s)) vs"
    using nv by (intro exI[of _ newValues]) (simp add: s')
  moreover have "length (colors s') = paletteSize s"
    using True nv(1) by (simp add: s')
  ultimately show ?thesis
    using True by (simp add: s')
next
  case False
  with assms have "s' = (if length (colors s) > paletteSize s
      then s\<lparr>colors := take (paletteSize s) (colors s)\<rparr> else s)"
    by (auto simp: ensurePaletteSize_def split: if_splits)
  with False show ?thesis
    by auto
qed




section \<open>Properties of the accent colour\<close>

lemma accentStep_slotRatio:
  "accentStep midL best c =
     (case slotRatio midL c of
        None \<Rightarrow> best
      | Some ratio \<Rightarrow>
          (case best of
             None \<Rightarrow> Some (CHR ''#'' # hexOf c, ratio)
           | Some (bestValue, bestRatio) \<Rightarrow>
               if ratio > bestRatio then Some (CHR ''#'' # hexOf c, ratio) else best))"
  by (simp add: accentStep_def slotRatio_def Let_def split: option.splits)

lemma firstBest_snoc_skip:
  assumes "firstBest midL cs k ratio" and "slotRatio midL c = None"
  shows "firstBest midL (cs @ [c]) k ratio"
  using assms unfolding firstBest_def
  by (auto simp: nth_append less_Suc_eq)

lemma firstBest_snoc_keep:
  assumes "firstBest midL cs k ratio" and "slotRatio midL c = Some x" and "\<not> x > ratio"
  shows "firstBest midL (cs @ [c]) k ratio"
  using assms unfolding firstBest_def
  by (auto simp: nth_append less_Suc_eq)

lemma firstBest_snoc_new:
  assumes "firstBest midL cs k ratio" and "slotRatio midL c = Some x" and "x > ratio"
  shows "firstBest midL (cs @ [c]) (length cs) x"
  using assms unfolding firstBest_def
  by (fastforce simp: nth_append less_Suc_eq)

lemma firstBest_snoc_first:
  assumes "\<forall>c' \<in> set cs. slotRatio midL c' = None" and "slotRatio midL c = Some x"
  shows "firstBest midL (cs @ [c]) (length cs) x"
  using assms unfolding firstBest_def
  by (auto simp: nth_append less_Suc_eq)

lemma accent_scan:
  "(case foldl (accentStep midL) None cs of
      None \<Rightarrow> \<forall>c \<in> set cs. slotRatio midL c = None
    | Some (v, ratio) \<Rightarrow> \<exists>k. firstBest midL cs k ratio \<and> v = CHR ''#'' # hexOf (cs ! k))"
proof (induction cs rule: rev_induct)
  case Nil
  show ?case by simp
next
  case (snoc c cs)
  define best where "best = foldl (accentStep midL) None cs"
  have step: "foldl (accentStep midL) None (cs @ [c]) = accentStep midL best c"
    by (simp add: best_def)
  note IH = snoc[folded best_def]
  note unfold = accentStep_slotRatio[of midL best c]
  show ?case
    unfolding step
  proof (cases "slotRatio midL c")
    case None
    show "case accentStep midL best c of
            None \<Rightarrow> \<forall>c \<in> set (cs @ [c]). slotRatio midL c = None
          | Some (v, ratio) \<Rightarrow>
              \<exists>k. firstBest midL (cs @ [c]) k ratio \<and> v = CHR ''#'' # hexOf ((cs @ [c]) ! k)"
    proof (cases best)
      case none: None
      with IH None unfold show ?thesis
        by simp
    next
      case (Some p)
      obtain v ratio where p: "p = (v, ratio)" by (cases p)
      from IH Some p obtain k where
        k: "firstBest midL cs k ratio" "v = CHR ''#'' # hexOf (cs ! k)"
        by auto
      have "k < length cs" using k(1) by (simp add: firstBest_def)
      then have "v = CHR ''#'' # hexOf ((cs @ [c]) ! k)"
        using k(2) by (simp add: nth_append)
      with firstBest_snoc_skip[OF k(1) None] Some p None unfold show ?thesis
        by auto
    qed
  next
    case (Some x)
    show "case accentStep midL best c of
            None \<Rightarrow> \<forall>c \<in> set (cs @ [c]). slotRatio midL c = None
          | Some (v, ratio) \<Rightarrow>
              \<exists>k. firstBest midL (cs @ [c]) k ratio \<and> v = CHR ''#'' # hexOf ((cs @ [c]) ! k)"
    proof (cases best)
      case None
      with IH have "\<forall>c' \<in> set cs. slotRatio midL c' = None"
        by simp
      from firstBest_snoc_first[OF this Some] None Some unfold show ?thesis
        by auto
    next
      case best_some: (Some p)
      obtain v ratio where p: "p = (v, ratio)" by (cases p)
      from IH best_some p obtain k where
        k: "firstBest midL cs k ratio" "v = CHR ''#'' # hexOf (cs ! k)"
        by auto
      show ?thesis
      proof (cases "x > ratio")
        case True
        from firstBest_snoc_new[OF k(1) Some True] best_some p Some True unfold show ?thesis
          by auto
      next
        case False
        have "k < length cs" using k(1) by (simp add: firstBest_def)
        then have "v = CHR ''#'' # hexOf ((cs @ [c]) ! k)"
          using k(2) by (simp add: nth_append)
        with firstBest_snoc_keep[OF k(1) Some False] best_some p Some False unfold show ?thesis
          by auto
      qed
    qed
  qed
qed

text \<open>
  Claim C5. \<open>accentColor\<close> returns \<^verbatim>\<open>null\<close> exactly when the palette is empty or the
  value of the slot at index \<open>length div 2\<close> does not parse to RGB. Otherwise, with the
  luminance of that slot as reference, it returns the hex form, behind the marker
  \<^verbatim>\<open>#\<close>, and the ratio of a slot \<open>k\<close> that parses, whose ratio is at least that of
  every slot that parses and strictly greater than that of every such slot before \<open>k\<close>:
  the first slot of maximum ratio.
\<close>

theorem accentColor_first_maximum:
  "(accentColor cs = None) = (cs = [] \<or> parseHexToRgb (hexOf (cs ! (length cs div 2))) = None) \<and>
   (\<forall>midRgb v ratio.
      cs \<noteq> [] \<and> parseHexToRgb (hexOf (cs ! (length cs div 2))) = Some midRgb \<and>
      accentColor cs = Some (v, ratio) \<longrightarrow>
      (\<exists>k. firstBest (getRelativeLuminance (r midRgb) (g midRgb) (b midRgb)) cs k ratio \<and>
           v = CHR ''#'' # hexOf (cs ! k)))"
proof (cases "cs = []")
  case True
  then show ?thesis
    by (simp add: accentColor_def)
next
  case False
  then have mid: "length cs div 2 < length cs"
    by simp
  show ?thesis
  proof (cases "parseHexToRgb (hexOf (cs ! (length cs div 2)))")
    case None
    with False show ?thesis
      by (simp add: accentColor_def)
  next
    case (Some midRgb)
    define midL where "midL = getRelativeLuminance (r midRgb) (g midRgb) (b midRgb)"
    have acc: "accentColor cs = foldl (accentStep midL) None cs"
      using False Some by (simp add: accentColor_def midL_def)
    have "slotRatio midL (cs ! (length cs div 2)) \<noteq> None"
      using Some by (simp add: slotRatio_def)
    moreover have "cs ! (length cs div 2) \<in> set cs"
      using mid by simp
    ultimately have not_none: "foldl (accentStep midL) None cs \<noteq> None"
      using accent_scan[where midL = midL and cs = cs] by (auto split: option.splits)
    have "\<exists>k. firstBest midL cs k ratio \<and> v = CHR ''#'' # hexOf (cs ! k)"
      if "accentColor cs = Some (v, ratio)" for v ratio
      using accent_scan[where midL = midL and cs = cs] that by (simp add: acc)
    with not_none False Some show ?thesis
      by (simp add: acc midL_def)
  qed
qed

lemma n0: "Number_ofDigits ''0'' = Num 0"
  by (simp add: Number_ofDigits_def roundToDouble_def)

lemma m0: "matchRgbAt ''rgb(0, 0, 0)'' = Some (''0'', ''0'', ''0'')"
  by (simp add: matchRgbAt_def expectChar_def matchDigits_def isDigit_def isWhiteSpace_def)

lemma black: "rgbToHex (Num 0) (Num 0) (Num 0) = ''000000''"
  by (simp add: rgbToHex_def toStringRadix_def padStart_def digitChar_def char_of_eq_iff
      take_bit_eq_mod)

lemma r0: "rgbStringToHex ''rgb(0, 0, 0)'' = ''000000''"
  by (simp add: rgbStringToHex_def m0 n0 black)

lemma hexOf_example:
  "map hexOf accentExample = [''050505'', ''0a0a0a'', ''000000'', ''zzz'', ''000000'']"
  by (simp add: accentExample_def hexOf_def unpinned_def startsWith_def r0)

lemma parse_example:
  "map parseHexToRgb [''050505'', ''0a0a0a'', ''000000'', ''zzz'', ''000000''] =
     [Some \<lparr>r = 5, g = 5, b = 5\<rparr>, Some \<lparr>r = 10, g = 10, b = 10\<rparr>, Some \<lparr>r = 0, g = 0, b = 0\<rparr>,
      None, Some \<lparr>r = 0, g = 0, b = 0\<rparr>]"
  by (simp add: parseHexToRgb_def parseInt16_def stripHexPrefix_def isHexDigit_def
      hexDigitValue_def isWhiteSpace_def)

lemma luminance_example:
  "getRelativeLuminance 5 5 5 = 25 / 16473" "getRelativeLuminance 10 10 10 = 50 / 16473"
  "getRelativeLuminance 0 0 0 = 0"
  by (simp_all add: getRelativeLuminance_def srgbChannelToLinear_def)

lemma slotRatio_example:
  "slotRatio 0 (unpinned ''050505'') = Some (16973 / 16473)"
  "slotRatio 0 (unpinned ''0a0a0a'') = Some (17473 / 16473)"
  "slotRatio 0 (unpinned ''rgb(0, 0, 0)'') = Some 1"
  "slotRatio 0 (unpinned ''zzz'') = None"
  "slotRatio 0 (unpinned ''000000'') = Some 1"
proof -
  have h: "hexOf (unpinned ''050505'') = ''050505''" "hexOf (unpinned ''0a0a0a'') = ''0a0a0a''"
    "hexOf (unpinned ''rgb(0, 0, 0)'') = ''000000''" "hexOf (unpinned ''zzz'') = ''zzz''"
    "hexOf (unpinned ''000000'') = ''000000''"
    using hexOf_example by (simp_all add: accentExample_def)
  have p: "parseHexToRgb ''050505'' = Some \<lparr>r = 5, g = 5, b = 5\<rparr>"
    "parseHexToRgb ''0a0a0a'' = Some \<lparr>r = 10, g = 10, b = 10\<rparr>"
    "parseHexToRgb ''000000'' = Some \<lparr>r = 0, g = 0, b = 0\<rparr>"
    "parseHexToRgb ''zzz'' = None"
    using parse_example by simp_all
  show "slotRatio 0 (unpinned ''050505'') = Some (16973 / 16473)"
    "slotRatio 0 (unpinned ''0a0a0a'') = Some (17473 / 16473)"
    "slotRatio 0 (unpinned ''rgb(0, 0, 0)'') = Some 1"
    "slotRatio 0 (unpinned ''zzz'') = None"
    "slotRatio 0 (unpinned ''000000'') = Some 1"
    by (simp_all add: slotRatio_def h p luminance_example getContrastRatio_def)
qed

lemma accentColor_example: "accentColor accentExample = Some (''#0a0a0a'', 17473 / 16473)"
proof -
  have h: "hexOf (unpinned ''050505'') = ''050505''" "hexOf (unpinned ''0a0a0a'') = ''0a0a0a''"
    "hexOf (unpinned ''rgb(0, 0, 0)'') = ''000000''"
    using hexOf_example by (simp_all add: accentExample_def)
  have p: "parseHexToRgb ''000000'' = Some \<lparr>r = 0, g = 0, b = 0\<rparr>"
    using parse_example by simp
  have "accentColor accentExample = foldl (accentStep 0) None accentExample"
    by (simp add: accentColor_def accentExample_def h p luminance_example)
  also have "\<dots> = Some (''#0a0a0a'', 17473 / 16473)"
    by (simp add: accentExample_def accentStep_slotRatio slotRatio_example h)
  finally show ?thesis .
qed

theorem accentColor_first_maximum_witness:
  "accentExample \<noteq> [] \<and>
   parseHexToRgb (hexOf (accentExample ! (length accentExample div 2))) = Some \<lparr>r = 0, g = 0, b = 0\<rparr> \<and>
   accentColor accentExample = Some (''#0a0a0a'', 17473 / 16473) \<and>
   (\<exists>k. firstBest (getRelativeLuminance 0 0 0) accentExample k (17473 / 16473) \<and>
        ''#0a0a0a'' = CHR ''#'' # hexOf (accentExample ! k)) \<and>
   accentColor [] = None"
proof -
  have ne: "accentExample \<noteq> []"
    by (simp add: accentExample_def)
  have "hexOf (accentExample ! (length accentExample div 2)) = ''000000''"
    using hexOf_example by (simp add: accentExample_def)
  then have mid: "parseHexToRgb (hexOf (accentExample ! (length accentExample div 2)))
      = Some \<lparr>r = 0, g = 0, b = 0\<rparr>"
    using parse_example by simp
  have none: "accentColor [] = None"
    using accentColor_first_maximum[of "[]"] by simp
  have "\<exists>k. firstBest (getRelativeLuminance 0 0 0) accentExample k (17473 / 16473) \<and>
        ''#0a0a0a'' = CHR ''#'' # hexOf (accentExample ! k)"
    using accentColor_first_maximum[of accentExample] ne mid accentColor_example
    by simp
  with ne mid accentColor_example none show ?thesis
    by blast
qed

section \<open>Properties of the palette library\<close>

lemma find_updateFirst:
  assumes "k < length xs" and "p (xs ! k)" and "\<forall>j<k. \<not> p (xs ! j)"
  shows "find p xs = Some (xs ! k) \<and> updateFirst p u xs = xs[k := u (xs ! k)]"
  using assms
proof (induction xs arbitrary: k)
  case Nil
  then show ?case by simp
next
  case (Cons x xs)
  show ?case
  proof (cases k)
    case 0
    with Cons.prems show ?thesis by simp
  next
    case (Suc k')
    with Cons.prems have "\<not> p x" by auto
    moreover have "find p xs = Some (xs ! k') \<and> updateFirst p u xs = xs[k' := u (xs ! k')]"
      using Cons.prems Suc by (intro Cons.IH) auto
    ultimately show ?thesis
      using Suc by simp
  qed
qed

text \<open>
  Claim C8, as amended. When the entry under edit is found, at the first index \<open>k\<close>
  holding its id, \<open>saveEdit\<close> changes that entry alone: its name becomes the trimmed
  new name when that is not empty and stays as it was otherwise; its tags become the
  pieces of the tag input between commas, each trimmed, the empty ones left out.
  Duplicates are kept, in order. The edit fields are cleared.
\<close>

theorem saveEdit_updates:
  assumes "editingId st = Some eid" and "eid \<noteq> []"
    and "k < length (items st)" and "itemId (items st ! k) = eid"
    and "\<forall>j<k. itemId (items st ! j) \<noteq> eid"
  shows "saveEdit st =
           \<lparr>items = (items st)[k := (items st ! k)\<lparr>
                itemName := (if trim (editName st) \<noteq> [] then trim (editName st)
                             else itemName (items st ! k)),
                itemTags := filter (\<lambda>t. t \<noteq> []) (map trim (split CHR '','' (editTags st)))\<rparr>],
            editingId = None, editName = [], editTags = []\<rparr>"
proof -
  have t: "truthy (editingId st) = Some eid"
    using assms(1,2) by (simp add: truthy_def)
  from find_updateFirst[of k "items st" "\<lambda>i. itemId i = eid"] assms(3,4,5)
  have f: "find (\<lambda>i. itemId i = eid) (items st) = Some (items st ! k)"
    and u: "\<And>u. updateFirst (\<lambda>i. itemId i = eid) u (items st) = (items st)[k := u (items st ! k)]"
    by auto
  show ?thesis
    by (simp add: saveEdit_def t f u)
qed

lemma saveEdit_example:
  "saveEdit exampleLibrary =
     \<lparr>items = [exampleItem\<lparr>itemName := ''Sunset'', itemTags := [''a'', ''b'', ''a'']\<rparr>],
      editingId = None, editName = [], editTags = []\<rparr>"
  by (simp add: saveEdit_def exampleLibrary_def exampleItem_def truthy_def trim_def
      isWhiteSpace_def)

theorem saveEdit_updates_witness:
  "editingId exampleLibrary = Some ''pal_1'' \<and> (0::nat) < length (items exampleLibrary) \<and>
   itemId (items exampleLibrary ! 0) = ''pal_1'' \<and>
   saveEdit exampleLibrary =
     \<lparr>items = [exampleItem\<lparr>itemName := ''Sunset'', itemTags := [''a'', ''b'', ''a'']\<rparr>],
      editingId = None, editName = [], editTags = []\<rparr> \<and>
   saveEdit (exampleLibrary\<lparr>editName := ''  '', editTags := '' ,''\<rparr>) =
     \<lparr>items = [exampleItem\<lparr>itemTags := []\<rparr>],
      editingId = None, editName = [], editTags = []\<rparr>"
  using saveEdit_updates[of exampleLibrary "''pal_1''" 0]
    saveEdit_updates[of "exampleLibrary\<lparr>editName := ''  '', editTags := '' ,''\<rparr>" "''pal_1''" 0]
  by (simp add: exampleLibrary_def exampleItem_def trim_def isWhiteSpace_def)

text \<open>
  Claim C8 as stated fails: for the tag input \<open>a, b,,a\<close> the entry gets the tags
  \<open>a, b, a\<close>, not the deduplicated list \<open>a, b\<close>.
\<close>

theorem saveEdit_keeps_duplicates_counterexample:
  "itemTags (hd (items (saveEdit exampleLibrary))) = [''a'', ''b'', ''a''] \<and>
   specTags (editTags exampleLibrary) = [''a'', ''b''] \<and>
   itemTags (hd (items (saveEdit exampleLibrary))) \<noteq> specTags (editTags exampleLibrary)"
  by (simp add: saveEdit_example) (simp add: specTags_def exampleLibrary_def trim_def isWhiteSpace_def)

section \<open>Properties of loading\<close>

lemma keys_differ: "STORAGE_KEY \<noteq> ACTIVE_PALETTE_KEY"
  by (simp add: STORAGE_KEY_def ACTIVE_PALETTE_KEY_def)


lemma applyFromLibrary_failed:
  assumes "parseActive raw = SyntaxError \<or> parseActive raw = Null \<or> parseActive raw = Parsed None \<or>
           parseActive raw = Parsed (Some [])"
  shows "applyFromLibrary parseActive f raw s = Some s"
  using assms by (auto simp: applyFromLibrary_def)





lemma onMounted_stale:
  "onMounted exampleParseActive exampleParseState zeroSource (initialState staleStore 0) =
     Some \<lparr>format = HEX, paletteSize = 3, colors = savedColors exampleSaved, pinedColors = [],
           isDarkPreview = False, localStorage = staleStore, randomPos = 0\<rparr>"
proof -
  have a: "truthy (staleStore ACTIVE_PALETTE_KEY) = None"
    using keys_differ by (simp add: truthy_def staleStore_def)
  have b: "truthy (staleStore STORAGE_KEY) = Some exampleStateText"
    by (simp add: truthy_def staleStore_def exampleStateText_def)
  show ?thesis
    by (simp add: onMounted_def initialState_def a b loadFromStorage_def exampleParseState_def
        ensurePaletteSize_def exampleSaved_def)
qed


text \<open>
  Claim C10, as amended. When the handoff key holds a string that is not empty and
  parsing it throws, gives \<^verbatim>\<open>null\<close>, or gives no colours array or an empty one, the
  load returns the initial state with the key deleted: the palette is empty, the format
  and the size are the initial ones, nothing is read from the saved state and nothing is
  generated.
\<close>

theorem onMounted_failed_handoff:
  assumes "store ACTIVE_PALETTE_KEY = Some raw" and "raw \<noteq> []"
    and "parseActive raw = SyntaxError \<or> parseActive raw = Null \<or> parseActive raw = Parsed None \<or>
         parseActive raw = Parsed (Some [])"
  shows "onMounted parseActive parseState f (initialState store pos) =
           Some (initialState (store(ACTIVE_PALETTE_KEY := None)) pos) \<and>
         colors (initialState (store(ACTIVE_PALETTE_KEY := None)) pos) = []"
proof -
  have t: "truthy (localStorage (initialState store pos) ACTIVE_PALETTE_KEY) = Some raw"
    using assms(1,2) by (simp add: truthy_def initialState_def)
  have "applyFromLibrary parseActive f raw (initialState store pos) = Some (initialState store pos)"
    using assms(3) by (rule applyFromLibrary_failed)
  then show ?thesis
    by (simp add: onMounted_def t) (simp add: removeItem_def initialState_def)
qed

theorem onMounted_failed_handoff_witness:
  "brokenStore ACTIVE_PALETTE_KEY = Some ''{colors'' \<and>
   exampleParseActive ''{colors'' = SyntaxError \<and>
   brokenStore STORAGE_KEY = Some exampleStateText \<and>
   exampleParseState exampleStateText = Parsed exampleSaved \<and>
   onMounted exampleParseActive exampleParseState zeroSource (initialState brokenStore 0) =
     Some (initialState (brokenStore(ACTIVE_PALETTE_KEY := None)) 0) \<and>
   colors (initialState (brokenStore(ACTIVE_PALETTE_KEY := None)) 0) = []"
proof -
  have k: "brokenStore ACTIVE_PALETTE_KEY = Some ''{colors''"
    using keys_differ by (simp add: brokenStore_def)
  have p: "exampleParseActive ''{colors'' = SyntaxError"
    by (simp add: exampleParseActive_def exampleHandoffText_def)
  have ne: "''{colors'' \<noteq> []" by simp
  show ?thesis
    using onMounted_failed_handoff[where store = brokenStore and raw = "''{colors''"
        and parseActive = exampleParseActive and parseState = exampleParseState
        and f = zeroSource and pos = 0]
      k p ne
    by (simp add: brokenStore_def exampleParseState_def)
qed

text \<open>
  Claim C10 as stated fails when the key is present and holds the empty string, which
  does not parse: the ordinary load runs and the palette is the saved one.
\<close>

theorem onMounted_empty_handoff_loads_saved_counterexample:
  "staleStore ACTIVE_PALETTE_KEY = Some [] \<and> exampleParseActive [] = SyntaxError \<and>
   (\<exists>s'. onMounted exampleParseActive exampleParseState zeroSource (initialState staleStore 0)
           = Some s' \<and> colors s' = savedColors exampleSaved \<and> colors s' \<noteq> [])"
  using keys_differ
  by (simp add: onMounted_stale)
     (simp add: staleStore_def exampleParseActive_def exampleHandoffText_def exampleSaved_def)

section \<open>The palette never exceeds the configured size\<close>

lemma generateNewPalette_length:
  assumes "generateNewPalette f s = Some s'"
  shows "length (colors s') = paletteSize s'"
proof -
  from generateNewPalette_result[OF assms] obtain vs where
    vs: "s' = s\<lparr>colors := take (paletteSize s) (filter isPinned (colors s) @ map unpinned vs),
                 randomPos := randomPos s'\<rparr>"
      "paletteSize s \<le> length (filter isPinned (colors s) @ map unpinned vs)"
    by blast
  have "colors s' = take (paletteSize s) (filter isPinned (colors s) @ map unpinned vs)"
    "paletteSize s' = paletteSize s"
    by (subst vs(1), simp)+
  with vs(2) show ?thesis by simp
qed

lemma ensurePaletteSize_length:
  "ensurePaletteSize f s = Some s' \<Longrightarrow> length (colors s') = paletteSize s'"
  using ensurePaletteSize_result[of f s s'] by simp

lemma applyFromLibrary_length:
  assumes "applyFromLibrary parseActive f raw s = Some s'" and "length (colors s) \<le> paletteSize s"
  shows "length (colors s') \<le> paletteSize s'"
proof (cases "\<exists>cs. parseActive raw = Parsed (Some cs) \<and> cs \<noteq> []")
  case False
  then have "applyFromLibrary parseActive f raw s = Some s"
    by (cases "parseActive raw") (auto simp: applyFromLibrary_def split: option.splits)
  with assms show ?thesis by simp
next
  case True
  then obtain cs where cs: "parseActive raw = Parsed (Some cs)" "cs \<noteq> []"
    by blast
  define s1 where "s1 = (if paletteSize s < length cs then s\<lparr>paletteSize := length cs\<rparr> else s)"
  show ?thesis
  proof (cases "length cs < paletteSize s1")
    case True
    with assms(1) cs obtain newValues pos' where
      "s' = s1\<lparr>colors := take (paletteSize s1) (map unpinned cs @ map unpinned newValues),
                randomPos := pos'\<rparr>"
      by (auto simp: applyFromLibrary_def Let_def s1_def split: option.splits if_splits)
    then show ?thesis by simp
  next
    case False
    with assms(1) cs have "s' = s1\<lparr>colors := take (paletteSize s1) (map unpinned cs)\<rparr>"
      by (auto simp: applyFromLibrary_def Let_def s1_def split: option.splits if_splits)
    then show ?thesis by simp
  qed
qed

lemma onMounted_length:
  assumes "onMounted parseActive parseState f (initialState store pos) = Some s"
  shows "length (colors s) \<le> paletteSize s"
proof (cases "truthy (localStorage (initialState store pos) ACTIVE_PALETTE_KEY)")
  case (Some raw)
  with assms obtain s1 where
    s1: "applyFromLibrary parseActive f raw (initialState store pos) = Some s1"
      "s = removeItem ACTIVE_PALETTE_KEY s1"
    by (auto simp: onMounted_def split: option.splits)
  have "length (colors s1) \<le> paletteSize s1"
    using s1(1) by (rule applyFromLibrary_length) (simp add: initialState_def)
  then show ?thesis
    by (simp add: s1(2) removeItem_def)
next
  case None
  define s1 where "s1 = loadFromStorage parseState (initialState store pos)"
  show ?thesis
  proof (cases "length (colors s1) = 0")
    case True
    with assms None obtain newValues pos' where
      gen: "generateRandomPaletteValues f (format s1) (paletteSize s1) (randomPos s1)
            = Some (newValues, pos')" and
      s: "s = s1\<lparr>colors := map unpinned newValues, randomPos := pos'\<rparr>"
      by (auto simp: onMounted_def Let_def s1_def split: option.splits)
    from generateRandomPaletteValues_length[OF gen] show ?thesis
      by (simp add: s)
  next
    case False
    with assms None have "ensurePaletteSize f s1 = Some s"
      by (simp add: onMounted_def Let_def s1_def)
    then show ?thesis
      by (simp add: ensurePaletteSize_length)
  qed
qed

lemma reachable_length:
  "reachable parseActive parseState f s \<Longrightarrow> length (colors s) \<le> paletteSize s"
proof (induction rule: reachable.induct)
  case (mounted store pos s)
  then show ?case by (rule onMounted_length)
next
  case (regenerated s s')
  then show ?case by (simp add: generateNewPalette_length)
next
  case (resized s n s')
  then show ?case
    by (simp add: resize_def handleChangeSize_def ensurePaletteSize_length)
next
  case (reformatted s t s')
  then show ?case
    by (simp add: changeFormat_def handleChangeFormat_eq generateNewPalette_length)
next
  case (pinToggled s i)
  then show ?case by (simp add: handleTogglePin_def Let_def)
qed simp_all

section \<open>Regeneration keeps the pinned slots\<close>

text \<open>
  Claim C3. For every palette that is not longer than the configured size,
  regeneration keeps the sequence of pinned slots as it is: the same values, the same
  flags, the same order, none dropped and none added. The data model has the palette
  exactly as long as the configured size, and every state the view can be in has it no
  longer (\<open>reachable_length\<close>). Regeneration returns whenever the random source accepts
  eventually.
\<close>

theorem regenerate_preserves_pinned:
  assumes "length (colors s) \<le> paletteSize s"
  shows "(\<forall>s'. generateNewPalette f s = Some s' \<longrightarrow>
            filter isPinned (colors s') = filter isPinned (colors s)) \<and>
         (acceptsEventually f \<longrightarrow> generateNewPalette f s \<noteq> None)"
proof -
  have "length (filter isPinned (colors s)) \<le> paletteSize s"
    using assms length_filter_le[of isPinned "colors s"] by linarith
  then show ?thesis
    by (rule generateNewPalette_keeps_pinned)
qed

theorem regenerate_preserves_pinned_witness:
  "length (colors mountedExample) \<le> paletteSize mountedExample \<and>
   reachable exampleParseActive exampleParseState zeroSource mountedExample \<and>
   acceptsEventually zeroSource \<and>
   filter isPinned (colors mountedExample) = [pinnedSlot ''112233''] \<and>
   generateNewPalette zeroSource mountedExample =
     Some (mountedExample\<lparr>colors := [pinnedSlot ''112233'', unpinned ''000000'', unpinned ''000000''],
                          randomPos := 6\<rparr>) \<and>
   filter isPinned [pinnedSlot ''112233'', unpinned ''000000'', unpinned ''000000'']
     = filter isPinned (colors mountedExample)"
proof -
  have m: "reachable exampleParseActive exampleParseState zeroSource mountedExample"
    unfolding mountedExample_def by (rule reachable.mounted) (rule onMounted_stale)
  have h: "length (colors mountedExample) \<le> paletteSize mountedExample"
    by (simp add: mountedExample_def exampleSaved_def)
  have g: "generateNewPalette zeroSource mountedExample =
     Some (mountedExample\<lparr>colors := [pinnedSlot ''112233'', unpinned ''000000'', unpinned ''000000''],
                          randomPos := 6\<rparr>)"
    by (simp add: generateNewPalette_def mountedExample_def exampleSaved_def generate_zeroSource
        fillToSize_full pinnedSlot_def unpinned_def numeral_2_eq_2)
  show ?thesis
    using regenerate_preserves_pinned[OF h, of zeroSource] m h g acceptsEventually_zeroSource
    by (simp add: mountedExample_def exampleSaved_def pinnedSlot_def unpinned_def)
qed

end
